theory Spec2Isabelle
  imports
    Complex_Main
    "HOL-Library.Multiset"
    "HOL-Library.Sublist"
    "HOL-Library.Char_ord"
    "HOL-Library.List_Lexorder"
begin

section \<open>Tables, cells and errors\<close>

text \<open>
  The module \<^verbatim>\<open>wrangling_scripts/wrangle_data.py\<close> shapes one pandas table into the data of
  five charts. A table cell is a missing value (pandas' \<^verbatim>\<open>NaN\<close>, which \<^verbatim>\<open>isna()\<close> reports),
  a floating-point number, one of the two infinities that float division produces, or a
  string. Finite floats are represented by the real numbers they denote: rounding,
  overflow and the sign of zero are not represented.

  A table has an ordered list of column names and a list of rows; a row gives a cell for
  every column name, and every access to a column first checks that the table has it
  (\<^verbatim>\<open>KeyError\<close> otherwise). The row index of pandas is not represented: every operation of the
  module that reads it (\<^verbatim>\<open>head\<close>, \<^verbatim>\<open>iloc\<close>, boolean masks built from the same table) is
  positional.
\<close>

datatype cell = NaN | Num real | PInf | NInf | Str string

datatype error = FileNotFoundError | KeyError | TypeError | IndexError | AttributeError

type_synonym row = "string \<Rightarrow> cell"

record frame =
  columns :: "string list"
  rows :: "row list"

definition bind_res :: "error + 'a \<Rightarrow> ('a \<Rightarrow> error + 'b) \<Rightarrow> error + 'b" where
  "bind_res m f = (case m of Inl e \<Rightarrow> Inl e | Inr x \<Rightarrow> f x)"

fun those_res :: "(error + 'a) list \<Rightarrow> error + 'a list" where
  "those_res [] = Inr []"
| "those_res (m # ms) =
     bind_res m (\<lambda>x. bind_res (those_res ms) (\<lambda>xs. Inr (x # xs)))"

definition isna :: "cell \<Rightarrow> bool" where
  "isna c = (c = NaN)"

definition is_num :: "cell \<Rightarrow> bool" where
  "is_num c = (case c of Num _ \<Rightarrow> True | PInf \<Rightarrow> True | NInf \<Rightarrow> True | _ \<Rightarrow> False)"

definition is_str :: "cell \<Rightarrow> bool" where
  "is_str c = (case c of Str _ \<Rightarrow> True | _ \<Rightarrow> False)"

text \<open>
  \<open>cell_le\<close> is \<^verbatim>\<open><=\<close> on cells: numeric on numbers, lexicographic on strings, and false as
  soon as one side is missing, as for IEEE floats. Python refuses to compare a number with
  a string; the operations below that compare cells check first that the cells are of one
  kind (\<open>homogeneous\<close>) and raise \<^verbatim>\<open>TypeError\<close> otherwise, except the ordering of group keys,
  where pandas puts numbers before strings.
\<close>

fun cell_le :: "cell \<Rightarrow> cell \<Rightarrow> bool" where
  "cell_le NaN _ = False"
| "cell_le _ NaN = False"
| "cell_le NInf _ = True"
| "cell_le (Num a) NInf = False"
| "cell_le (Num a) (Num b) = (a \<le> b)"
| "cell_le (Num a) _ = True"
| "cell_le PInf NInf = False"
| "cell_le PInf (Num b) = False"
| "cell_le PInf _ = True"
| "cell_le (Str s) (Str t) = (s \<le> t)"
| "cell_le (Str s) _ = False"

definition homogeneous :: "cell list \<Rightarrow> bool" where
  "homogeneous cs = (list_all (\<lambda>c. isna c \<or> is_num c) cs \<or> list_all (\<lambda>c. isna c \<or> is_str c) cs)"

subsection \<open>Column access\<close>

text \<open>\<^verbatim>\<open>df[c]\<close>, \<^verbatim>\<open>df[cs]\<close> and \<^verbatim>\<open>df[c] = values\<close>.\<close>

definition getitem :: "frame \<Rightarrow> string \<Rightarrow> error + cell list" where
  "getitem df c = (if c \<in> set (columns df) then Inr (map (\<lambda>r. r c) (rows df)) else Inl KeyError)"

definition restrict_row :: "string list \<Rightarrow> row \<Rightarrow> row" where
  "restrict_row cs r = (\<lambda>c. if c \<in> set cs then r c else NaN)"

definition getitems :: "frame \<Rightarrow> string list \<Rightarrow> error + frame" where
  "getitems df cs =
     (if set cs \<subseteq> set (columns df)
      then Inr \<lparr>columns = cs, rows = map (restrict_row cs) (rows df)\<rparr>
      else Inl KeyError)"

definition setitem :: "frame \<Rightarrow> string \<Rightarrow> cell list \<Rightarrow> frame" where
  "setitem df c vs =
     \<lparr>columns = (if c \<in> set (columns df) then columns df else columns df @ [c]),
      rows = map (\<lambda>(r, v). r(c := v)) (zip (rows df) vs)\<rparr>"

text \<open>\<^verbatim>\<open>df[mask]\<close> for a mask computed cell by cell from column \<open>c\<close> of the same table.\<close>

definition select_where :: "frame \<Rightarrow> string \<Rightarrow> (cell \<Rightarrow> bool) \<Rightarrow> error + frame" where
  "select_where df c p =
     (if c \<in> set (columns df)
      then Inr \<lparr>columns = columns df, rows = filter (\<lambda>r. p (r c)) (rows df)\<rparr>
      else Inl KeyError)"

text \<open>\<^verbatim>\<open>series == name\<close>: true on the cells that hold exactly that string.\<close>

definition eq_str :: "string \<Rightarrow> cell \<Rightarrow> bool" where
  "eq_str s c = (c = Str s)"

subsection \<open>Arithmetic on cells\<close>

text \<open>
  Float arithmetic as numpy does it, without faults: a missing operand gives a missing
  result, division by zero gives an infinity (or \<^verbatim>\<open>NaN\<close> for \<^verbatim>\<open>0/0\<close>). A string operand
  raises \<^verbatim>\<open>TypeError\<close>.
\<close>

fun sub_cell :: "cell \<Rightarrow> cell \<Rightarrow> error + cell" where
  "sub_cell (Str _) _ = Inl TypeError"
| "sub_cell _ (Str _) = Inl TypeError"
| "sub_cell NaN _ = Inr NaN"
| "sub_cell _ NaN = Inr NaN"
| "sub_cell (Num a) (Num b) = Inr (Num (a - b))"
| "sub_cell (Num a) PInf = Inr NInf"
| "sub_cell (Num a) NInf = Inr PInf"
| "sub_cell PInf PInf = Inr NaN"
| "sub_cell PInf _ = Inr PInf"
| "sub_cell NInf NInf = Inr NaN"
| "sub_cell NInf _ = Inr NInf"

fun truediv_cell :: "cell \<Rightarrow> cell \<Rightarrow> error + cell" where
  "truediv_cell (Str _) _ = Inl TypeError"
| "truediv_cell _ (Str _) = Inl TypeError"
| "truediv_cell NaN _ = Inr NaN"
| "truediv_cell _ NaN = Inr NaN"
| "truediv_cell (Num a) (Num b) =
     Inr (if b = 0 then (if 0 < a then PInf else if a < 0 then NInf else NaN)
          else Num (a / b))"
| "truediv_cell (Num a) _ = Inr (Num 0)"
| "truediv_cell PInf (Num b) = Inr (if b < 0 then NInf else PInf)"
| "truediv_cell NInf (Num b) = Inr (if b < 0 then PInf else NInf)"
| "truediv_cell _ _ = Inr NaN"

fun mul_cell :: "cell \<Rightarrow> cell \<Rightarrow> error + cell" where
  "mul_cell (Str _) _ = Inl TypeError"
| "mul_cell _ (Str _) = Inl TypeError"
| "mul_cell NaN _ = Inr NaN"
| "mul_cell _ NaN = Inr NaN"
| "mul_cell (Num a) (Num b) = Inr (Num (a * b))"
| "mul_cell (Num a) PInf = Inr (if 0 < a then PInf else if a < 0 then NInf else NaN)"
| "mul_cell (Num a) NInf = Inr (if 0 < a then NInf else if a < 0 then PInf else NaN)"
| "mul_cell PInf (Num b) = Inr (if 0 < b then PInf else if b < 0 then NInf else NaN)"
| "mul_cell NInf (Num b) = Inr (if 0 < b then NInf else if b < 0 then PInf else NaN)"
| "mul_cell PInf PInf = Inr PInf"
| "mul_cell PInf NInf = Inr NInf"
| "mul_cell NInf PInf = Inr NInf"
| "mul_cell NInf NInf = Inr PInf"

definition sub_series :: "cell list \<Rightarrow> cell list \<Rightarrow> error + cell list" where
  "sub_series xs ys = those_res (map (\<lambda>(a, b). sub_cell a b) (zip xs ys))"

subsection \<open>Grouped maximum\<close>

text \<open>
  \<^verbatim>\<open>df.groupby([key])[cols].max()\<close>: rows whose key is missing belong to no group; there is
  one result row per distinct key, in ascending key order; each selected column holds the
  maximum of the group's non-missing cells, and is missing when the group has none.
\<close>

fun insort_cell :: "cell \<Rightarrow> cell list \<Rightarrow> cell list" where
  "insort_cell k [] = [k]"
| "insort_cell k (j # js) = (if cell_le k j then k # j # js else j # insort_cell k js)"

definition group_keys :: "cell list \<Rightarrow> cell list" where
  "group_keys ks = foldr insort_cell (remdups (filter (\<lambda>k. \<not> isna k) ks)) []"

definition group_max :: "cell list \<Rightarrow> error + cell" where
  "group_max cs =
     (case filter (\<lambda>c. \<not> isna c) cs of
        [] \<Rightarrow> Inr NaN
      | v # vs \<Rightarrow>
          if homogeneous (v # vs)
          then Inr (foldl (\<lambda>a b. if cell_le a b then b else a) v vs)
          else Inl TypeError)"

fun agg_row :: "string list \<Rightarrow> row list \<Rightarrow> error + row" where
  "agg_row [] g = Inr (\<lambda>c. NaN)"
| "agg_row (c # cs) g =
     bind_res (group_max (map (\<lambda>r. r c) g))
       (\<lambda>v. bind_res (agg_row cs g) (\<lambda>r. Inr (r(c := v))))"

definition groupby_max :: "frame \<Rightarrow> string \<Rightarrow> string list \<Rightarrow> error + frame" where
  "groupby_max df key cols =
     (if key \<notin> set (columns df) then Inl KeyError
      else if \<not> set cols \<subseteq> set (columns df) then Inl KeyError
      else bind_res
        (those_res
           (map (\<lambda>k. agg_row cols (filter (\<lambda>r. r key = k) (rows df)))
              (group_keys (map (\<lambda>r. r key) (rows df)))))
        (\<lambda>rs. Inr \<lparr>columns = cols, rows = rs\<rparr>))"

text \<open>\<^verbatim>\<open>reset_index(drop=True)\<close> renumbers the index and leaves the data as it is.\<close>

definition reset_index_drop :: "frame \<Rightarrow> frame" where
  "reset_index_drop df = df"

subsection \<open>Sorting\<close>

text \<open>
  \<^verbatim>\<open>sort_values(by=c, ascending=False)\<close> is called with its default algorithm
  (\<^verbatim>\<open>kind='quicksort'\<close>), which pandas hands to numpy and documents as not stable. The
  routine that reorders the rows is therefore a parameter \<open>srt\<close> of every function that
  sorts, and \<open>sorts_descending\<close> is what pandas promises of it: the rows are rearranged,
  those with a present key come first in non-increasing key order, and the rows with a
  missing key come last (\<^verbatim>\<open>na_position='last'\<close>).
\<close>

type_synonym sorter = "string \<Rightarrow> row list \<Rightarrow> row list"




definition sort_values_desc :: "sorter \<Rightarrow> frame \<Rightarrow> string \<Rightarrow> error + frame" where
  "sort_values_desc srt df c =
     (if c \<notin> set (columns df) then Inl KeyError
      else if \<not> homogeneous (map (\<lambda>r. r c) (rows df)) then Inl TypeError
      else Inr \<lparr>columns = columns df, rows = srt c (rows df)\<rparr>)"

text \<open>One routine that meets the contract: insertion into a descending list.\<close>

fun insert_desc :: "string \<Rightarrow> row \<Rightarrow> row list \<Rightarrow> row list" where
  "insert_desc c x [] = [x]"
| "insert_desc c x (y # ys) =
     (if cell_le (y c) (x c) then x # y # ys else y # insert_desc c x ys)"

definition insertion_sorter :: sorter where
  "insertion_sorter c rs =
     foldr (insert_desc c) (filter (\<lambda>r. \<not> isna (r c)) rs) [] @ filter (\<lambda>r. isna (r c)) rs"

section \<open>The snapshot: \<^verbatim>\<open>clean_data\<close>\<close>

text \<open>
  \<^verbatim>\<open>pd.read_csv\<close> is the file system \<open>fs\<close>: the table stored under a path, if any. The body
  follows lines 20 to 28 of the module.
\<close>

definition read_csv :: "(string \<Rightarrow> frame option) \<Rightarrow> string \<Rightarrow> error + frame" where
  "read_csv fs path = (case fs path of None \<Rightarrow> Inl FileNotFoundError | Some df \<Rightarrow> Inr df)"

definition add_partly :: "frame \<Rightarrow> error + frame" where
  "add_partly world_vax =
     bind_res (getitem world_vax ''people_vaccinated'') (\<lambda>pv.
     bind_res (getitem world_vax ''people_fully_vaccinated'') (\<lambda>pfv.
     bind_res (sub_series pv pfv) (\<lambda>d.
     Inr (setitem world_vax ''people_partly_vaccinated'' d))))"

definition clean_data :: "sorter \<Rightarrow> (string \<Rightarrow> frame option) \<Rightarrow> string \<Rightarrow> string list \<Rightarrow> error + frame" where
  "clean_data srt fs dataset keepcols =
     bind_res (read_csv fs dataset) (\<lambda>df.
     bind_res (groupby_max df ''iso_code'' keepcols) (\<lambda>world_vax.
     bind_res (add_partly (reset_index_drop world_vax)) (\<lambda>world_vax.
     bind_res (sort_values_desc srt world_vax ''people_vaccinated'') (\<lambda>world_vax.
     select_where world_vax ''continent'' (\<lambda>c. isna c = False)))))"

section \<open>The continent map: \<^verbatim>\<open>vax_per_continent\<close>\<close>

text \<open>
  A choropleth trace is the dictionary \<^verbatim>\<open>map_data\<close>; the figure adds the title and the
  \<^verbatim>\<open>scope\<close> handed to \<^verbatim>\<open>update_geos\<close>. What plotly does with these values (drawing, and its
  own validation of attribute values) is outside this development.
\<close>

record choropleth =
  ch_locations :: "cell list"
  ch_z :: "cell list"
  ch_text :: "cell list"

record map_figure =
  map_data :: choropleth
  map_title :: string
  map_scope :: string

definition lower_char :: "char \<Rightarrow> char" where
  "lower_char c =
     (if 65 \<le> (of_char c :: nat) \<and> (of_char c :: nat) \<le> 90
      then char_of ((of_char c :: nat) + 32) else c)"

definition vpc_cols :: "string list" where
  "vpc_cols = [''iso_code'', ''continent'', ''location'', ''people_vaccinated'',
     ''people_fully_vaccinated'', ''people_vaccinated_per_hundred'',
     ''people_fully_vaccinated_per_hundred'']"

text \<open>Lines 42 to 47: the snapshot \<^verbatim>\<open>world_vax\<close> built inside the function.\<close>

definition vpc_world_vax :: "sorter \<Rightarrow> frame \<Rightarrow> error + frame" where
  "vpc_world_vax srt data =
     bind_res (groupby_max data ''iso_code'' vpc_cols) (\<lambda>world_vax.
     bind_res (add_partly (reset_index_drop world_vax)) (\<lambda>world_vax.
     bind_res (sort_values_desc srt world_vax ''people_vaccinated'') (\<lambda>world_vax.
     select_where world_vax ''continent'' (\<lambda>c. isna c = False))))"

text \<open>Line 48: \<^verbatim>\<open>cont_vax = world_vax[world_vax['continent']==continent]\<close>.\<close>

definition vpc_cont_vax :: "sorter \<Rightarrow> frame \<Rightarrow> string \<Rightarrow> error + frame" where
  "vpc_cont_vax srt data continent =
     bind_res (vpc_world_vax srt data) (\<lambda>world_vax.
     select_where world_vax ''continent'' (eq_str continent))"

text \<open>Lines 51 to 73: the figure made of \<^verbatim>\<open>cont_vax\<close>.\<close>

definition map_of_cont :: "frame \<Rightarrow> string \<Rightarrow> error + map_figure" where
  "map_of_cont cont_vax continent =
     bind_res (getitem cont_vax ''location'') (\<lambda>loc.
     bind_res (getitem cont_vax ''people_fully_vaccinated_per_hundred'') (\<lambda>z.
     bind_res (getitem cont_vax ''location'') (\<lambda>txt.
     Inr \<lparr>map_data = \<lparr>ch_locations = loc, ch_z = z, ch_text = txt\<rparr>,
          map_title = ''People fully vaccinated per hundred in '' @ continent,
          map_scope = map lower_char continent\<rparr>)))"

definition vax_per_continent :: "sorter \<Rightarrow> frame \<Rightarrow> string \<Rightarrow> error + map_figure" where
  "vax_per_continent srt data continent =
     bind_res (vpc_cont_vax srt data continent) (\<lambda>cont_vax. map_of_cont cont_vax continent)"

section \<open>Country series: \<^verbatim>\<open>vax_time_series\<close>\<close>

record scatter =
  sc_x :: "cell list"
  sc_y :: "cell list"
  sc_name :: cell

record layout =
  lay_title :: string
  lay_xaxis :: string
  lay_yaxis :: string

text \<open>\<^verbatim>\<open>series.iloc[0]\<close> raises \<^verbatim>\<open>IndexError\<close> on an empty series.\<close>

definition iloc0 :: "cell list \<Rightarrow> error + cell" where
  "iloc0 cs = (case cs of [] \<Rightarrow> Inl IndexError | c # _ \<Rightarrow> Inr c)"

text \<open>Lines 92 to 103: the trace made of the filtered table \<^verbatim>\<open>country_vax\<close>.\<close>

definition scatter_of :: "frame \<Rightarrow> error + scatter" where
  "scatter_of country_vax =
     bind_res (getitem country_vax ''date'') (\<lambda>x_data.
     bind_res (getitem country_vax ''new_vaccinations_per_hundred'') (\<lambda>y_data.
     bind_res (getitem country_vax ''iso_code'') (\<lambda>iso.
     bind_res (iloc0 iso) (\<lambda>name.
     Inr \<lparr>sc_x = x_data, sc_y = y_data, sc_name = name\<rparr>))))"

text \<open>Lines 89 to 103: one turn of the loop.\<close>

definition country_trace :: "frame \<Rightarrow> string \<Rightarrow> error + scatter" where
  "country_trace dataset country =
     bind_res (select_where dataset ''location'' (eq_str country)) (\<lambda>sel.
     bind_res (getitems sel [''iso_code'', ''date'', ''new_vaccinations_per_hundred'']) (\<lambda>country_vax.
     bind_res (select_where country_vax ''new_vaccinations_per_hundred'' (\<lambda>c. isna c = False))
       (\<lambda>country_vax. scatter_of country_vax)))"

fun vts_loop :: "frame \<Rightarrow> string list \<Rightarrow> scatter list \<Rightarrow> error + scatter list" where
  "vts_loop dataset [] graph = Inr graph"
| "vts_loop dataset (country # rest) graph =
     bind_res (country_trace dataset country) (\<lambda>t. vts_loop dataset rest (graph @ [t]))"

definition layout_five :: layout where
  "layout_five = \<lparr>lay_title = ''vaccination evolution'', lay_xaxis = ''Date'',
     lay_yaxis = ''number of vaccines applied''\<rparr>"

definition vax_time_series :: "string list \<Rightarrow> frame \<Rightarrow> error + scatter list \<times> layout" where
  "vax_time_series countries dataset =
     bind_res (vts_loop dataset countries []) (\<lambda>graph. Inr (graph, layout_five))"

section \<open>The five figures: \<^verbatim>\<open>return_figures\<close>\<close>

record bar =
  bar_x :: "cell list"
  bar_y :: "cell list"
  bar_name :: "string option"

record figures =
  graph_one :: choropleth
  graph_two :: "bar list"
  graph_three :: bar
  fig_four :: map_figure
  graph_five :: "scatter list"
  layout_of_five :: layout

definition rf_path :: string where
  "rf_path = ''data/owid-covid-data.csv''"

definition rf_countries :: "string list" where
  "rf_countries = [''India'', ''United States'', ''Russia'', ''Brazil'', ''Mexico'',
     ''Germany'', ''Turkey'']"

text \<open>\<^verbatim>\<open>df.head(n)\<close>: the first \<open>n\<close> rows, or all but the last \<open>-n\<close> when \<open>n\<close> is negative.\<close>

definition head_rows :: "int \<Rightarrow> frame \<Rightarrow> frame" where
  "head_rows n df =
     \<lparr>columns = columns df,
      rows = (if 0 \<le> n then take (nat n) (rows df)
              else take (length (rows df) - nat (- n)) (rows df))\<rparr>"

text \<open>Lines 150 to 163: the two stacked bar traces.\<close>

definition top_traces :: "frame \<Rightarrow> error + bar list" where
  "top_traces world_vax =
     bind_res (getitem (head_rows 10 world_vax) ''location'') (\<lambda>x1.
     bind_res (getitem (head_rows 10 world_vax) ''people_partly_vaccinated'') (\<lambda>y1.
     bind_res (getitem (head_rows 10 world_vax) ''location'') (\<lambda>x2.
     bind_res (getitem (head_rows 10 world_vax) ''people_fully_vaccinated'') (\<lambda>y2.
     Inr [\<lparr>bar_x = x1, bar_y = y1, bar_name = Some ''partly''\<rparr>,
          \<lparr>bar_x = x2, bar_y = y2, bar_name = Some ''fully''\<rparr>]))))"


definition add_rate :: "frame \<Rightarrow> error + frame" where
  "add_rate owid =
     bind_res (getitem owid ''new_vaccinations'') (\<lambda>nv.
     bind_res (getitem owid ''population'') (\<lambda>pop.
     bind_res (those_res (map (\<lambda>(n, d). truediv_cell n d) (zip nv pop))) (\<lambda>q.
     bind_res (those_res (map (\<lambda>c. mul_cell c (Num 100)) q)) (\<lambda>rate.
     Inr (setitem owid ''new_vaccinations_per_hundred'' rate)))))"

text \<open>Lines 175 to 186: the bar series of Brazil.\<close>

definition bra_series :: "frame \<Rightarrow> error + bar" where
  "bra_series owid =
     bind_res (select_where owid ''iso_code'' (eq_str ''BRA'')) (\<lambda>sel.
     bind_res (getitems sel [''date'', ''new_vaccinations'']) (\<lambda>bra_vax.
     bind_res (select_where bra_vax ''new_vaccinations'' (\<lambda>c. isna c = False)) (\<lambda>bra_vax.
     bind_res (getitem bra_vax ''date'') (\<lambda>x_data.
     bind_res (getitem bra_vax ''new_vaccinations'') (\<lambda>y_data.
     Inr \<lparr>bar_x = x_data, bar_y = y_data, bar_name = None\<rparr>)))))"

text \<open>
  The function reads the file twice, once inside \<^verbatim>\<open>clean_data\<close> and once for \<^verbatim>\<open>owid\<close>. Its
  list \<^verbatim>\<open>cols\<close> is the list of \<^verbatim>\<open>vax_per_continent\<close>. The layouts of the first four figures
  are constant dictionaries and are left out.
\<close>

definition return_figures :: "sorter \<Rightarrow> (string \<Rightarrow> frame option) \<Rightarrow> error + figures" where
  "return_figures srt fs =
     bind_res (clean_data srt fs rf_path vpc_cols) (\<lambda>world_vax.
     bind_res (getitem world_vax ''location'') (\<lambda>loc.
     bind_res (getitem world_vax ''people_vaccinated_per_hundred'') (\<lambda>z.
     bind_res (top_traces world_vax) (\<lambda>two.
     bind_res (read_csv fs rf_path) (\<lambda>owid.
     bind_res (add_rate owid) (\<lambda>owid.
     bind_res (bra_series owid) (\<lambda>three.
     bind_res (vax_per_continent srt owid ''South America'') (\<lambda>four.
     bind_res (vax_time_series rf_countries owid) (\<lambda>(five, lay).
     Inr \<lparr>graph_one = \<lparr>ch_locations = loc, ch_z = z, ch_text = loc\<rparr>,
          graph_two = two, graph_three = three, fig_four = four,
          graph_five = five, layout_of_five = lay\<rparr>)))))))))"

section \<open>Tables as objects\<close>

text \<open>
  To speak of a caller's table after a call, tables live in a store: an address holds a
  table, and \<open>nxt\<close> is the next free address. Every pandas operation the two functions
  use returns a new table, which is stored at a fresh address; only
  \<^verbatim>\<open>df[c] = values\<close> writes into an existing one.
\<close>

record heap =
  objs :: "nat \<Rightarrow> frame option"
  nxt :: nat

type_synonym 'a hres = "heap \<Rightarrow> (error + 'a) \<times> heap"

definition h_bind :: "'a hres \<Rightarrow> ('a \<Rightarrow> 'b hres) \<Rightarrow> 'b hres" where
  "h_bind m f h = (case m h of (Inl e, h') \<Rightarrow> (Inl e, h') | (Inr x, h') \<Rightarrow> f x h')"

definition h_pure :: "error + 'a \<Rightarrow> 'a hres" where
  "h_pure m h = (m, h)"

definition h_deref :: "nat \<Rightarrow> frame hres" where
  "h_deref a h = (case objs h a of None \<Rightarrow> (Inl AttributeError, h) | Some df \<Rightarrow> (Inr df, h))"

definition h_new :: "error + frame \<Rightarrow> nat hres" where
  "h_new m h =
     (case m of
        Inl e \<Rightarrow> (Inl e, h)
      | Inr df \<Rightarrow> (Inr (nxt h), \<lparr>objs = (objs h)(nxt h \<mapsto> df), nxt = Suc (nxt h)\<rparr>))"

definition h_setitem :: "nat \<Rightarrow> string \<Rightarrow> cell list \<Rightarrow> unit hres" where
  "h_setitem a c vs h =
     (case objs h a of
        None \<Rightarrow> (Inl AttributeError, h)
      | Some df \<Rightarrow> (Inr (), \<lparr>objs = (objs h)(a \<mapsto> setitem df c vs), nxt = nxt h\<rparr>))"

definition vax_per_continent_heap :: "sorter \<Rightarrow> nat \<Rightarrow> string \<Rightarrow> map_figure hres" where
  "vax_per_continent_heap srt data continent =
     h_bind (h_deref data) (\<lambda>df.
     h_bind (h_new (groupby_max df ''iso_code'' vpc_cols)) (\<lambda>a1.
     h_bind (h_deref a1) (\<lambda>w1.
     h_bind (h_new (Inr (reset_index_drop w1))) (\<lambda>world_vax.
     h_bind (h_deref world_vax) (\<lambda>w2.
     h_bind (h_pure (getitem w2 ''people_vaccinated'')) (\<lambda>pv.
     h_bind (h_pure (getitem w2 ''people_fully_vaccinated'')) (\<lambda>pfv.
     h_bind (h_pure (sub_series pv pfv)) (\<lambda>d.
     h_bind (h_setitem world_vax ''people_partly_vaccinated'' d) (\<lambda>u.
     h_bind (h_deref world_vax) (\<lambda>w3.
     h_bind (h_new (sort_values_desc srt w3 ''people_vaccinated'')) (\<lambda>a3.
     h_bind (h_deref a3) (\<lambda>w4.
     h_bind (h_new (select_where w4 ''continent'' (\<lambda>c. isna c = False))) (\<lambda>a4.
     h_bind (h_deref a4) (\<lambda>w5.
     h_bind (h_new (select_where w5 ''continent'' (eq_str continent))) (\<lambda>a5.
     h_bind (h_deref a5) (\<lambda>cont_vax.
     h_pure (map_of_cont cont_vax continent)))))))))))))))))"

definition country_trace_heap :: "nat \<Rightarrow> string \<Rightarrow> scatter hres" where
  "country_trace_heap dataset country =
     h_bind (h_deref dataset) (\<lambda>df.
     h_bind (h_new (select_where df ''location'' (eq_str country))) (\<lambda>a1.
     h_bind (h_deref a1) (\<lambda>sel.
     h_bind (h_new (getitems sel [''iso_code'', ''date'', ''new_vaccinations_per_hundred''])) (\<lambda>a2.
     h_bind (h_deref a2) (\<lambda>cv.
     h_bind (h_new (select_where cv ''new_vaccinations_per_hundred'' (\<lambda>c. isna c = False))) (\<lambda>a3.
     h_bind (h_deref a3) (\<lambda>country_vax.
     h_pure (scatter_of country_vax))))))))"

fun vts_loop_heap :: "nat \<Rightarrow> string list \<Rightarrow> scatter list \<Rightarrow> scatter list hres" where
  "vts_loop_heap dataset [] graph = h_pure (Inr graph)"
| "vts_loop_heap dataset (country # rest) graph =
     h_bind (country_trace_heap dataset country)
       (\<lambda>t. vts_loop_heap dataset rest (graph @ [t]))"

definition vax_time_series_heap :: "string list \<Rightarrow> nat \<Rightarrow> (scatter list \<times> layout) hres" where
  "vax_time_series_heap countries dataset =
     h_bind (vts_loop_heap dataset countries []) (\<lambda>graph. h_pure (Inr (graph, layout_five)))"

section \<open>Auxiliary definitions\<close>

text \<open>
  Lines 24 to 26 of \<^verbatim>\<open>clean_data\<close> and lines 45 to 47 of \<^verbatim>\<open>vax_per_continent\<close> are the same
  three statements; \<open>snapshot_tail\<close> names them, so that both snapshots are reasoned about
  once.
\<close>

definition snapshot_tail :: "sorter \<Rightarrow> frame \<Rightarrow> error + frame" where
  "snapshot_tail srt w =
     bind_res (add_partly (reset_index_drop w)) (\<lambda>world_vax.
     bind_res (sort_values_desc srt world_vax ''people_vaccinated'') (\<lambda>world_vax.
     select_where world_vax ''continent'' (\<lambda>c. isna c = False)))"

subsection \<open>Example tables\<close>

text \<open>A row given by its present cells; every other cell is missing.\<close>

definition row_of :: "(string \<times> cell) list \<Rightarrow> row" where
  "row_of kvs = (\<lambda>c. case map_of kvs c of None \<Rightarrow> NaN | Some v \<Rightarrow> v)"

text \<open>A file system that holds one table, under the path \<^verbatim>\<open>return_figures\<close> reads.\<close>

definition fs_of :: "frame \<Rightarrow> string \<Rightarrow> frame option" where
  "fs_of df = (\<lambda>p. if p = rf_path then Some df else None)"

text \<open>Region A with a continent, region B without.\<close>

definition ex_source :: frame where
  "ex_source = \<lparr>columns = vpc_cols, rows =
     [row_of [(''iso_code'', Str ''A''), (''continent'', Str ''X''), (''location'', Str ''Aland''),
        (''people_vaccinated'', Num 100), (''people_fully_vaccinated'', Num 40)],
      row_of [(''iso_code'', Str ''B''), (''location'', Str ''Bland''),
        (''people_vaccinated'', Num 200), (''people_fully_vaccinated'', Num 150)]]\<rparr>"


text \<open>Daily rows of two countries; Brazil has a day without a rate.\<close>

definition ex_series :: frame where
  "ex_series = \<lparr>columns = [''iso_code'', ''location'', ''date'', ''new_vaccinations_per_hundred''],
     rows =
     [row_of [(''iso_code'', Str ''BRA''), (''location'', Str ''Brazil''), (''date'', Str ''2021-03-01''),
        (''new_vaccinations_per_hundred'', Num (1/2))],
      row_of [(''iso_code'', Str ''BRA''), (''location'', Str ''Brazil''), (''date'', Str ''2021-03-02'')],
      row_of [(''iso_code'', Str ''IND''), (''location'', Str ''India''), (''date'', Str ''2021-03-01''),
        (''new_vaccinations_per_hundred'', Num (1/10))],
      row_of [(''iso_code'', Str ''BRA''), (''location'', Str ''Brazil''), (''date'', Str ''2021-03-03''),
        (''new_vaccinations_per_hundred'', Num (7/10))]]\<rparr>"

text \<open>Rows before the rate is derived: a zero population, a missing count, a missing population.\<close>

definition ex_rate :: frame where
  "ex_rate = \<lparr>columns = [''iso_code'', ''date'', ''new_vaccinations'', ''population''],
     rows =
     [row_of [(''iso_code'', Str ''BRA''), (''date'', Str ''2021-03-01''),
        (''new_vaccinations'', Num 50), (''population'', Num 200)],
      row_of [(''iso_code'', Str ''BRA''), (''date'', Str ''2021-03-02''),
        (''new_vaccinations'', Num 50), (''population'', Num 0)],
      row_of [(''iso_code'', Str ''BRA''), (''date'', Str ''2021-03-03''),
        (''population'', Num 200)],
      row_of [(''iso_code'', Str ''MEX''), (''date'', Str ''2021-03-01''),
        (''new_vaccinations'', Num 50)]]\<rparr>"

text \<open>Three regions of two continents.\<close>

definition ex_continents :: frame where
  "ex_continents = \<lparr>columns = vpc_cols, rows =
     [row_of [(''iso_code'', Str ''BRA''), (''continent'', Str ''South America''),
        (''location'', Str ''Brazil''), (''people_vaccinated'', Num 90),
        (''people_fully_vaccinated'', Num 30), (''people_fully_vaccinated_per_hundred'', Num 14)],
      row_of [(''iso_code'', Str ''DEU''), (''continent'', Str ''Europe''),
        (''location'', Str ''Germany''), (''people_vaccinated'', Num 60),
        (''people_fully_vaccinated'', Num 40), (''people_fully_vaccinated_per_hundred'', Num 48)],
      row_of [(''iso_code'', Str ''ARG''), (''continent'', Str ''South America''),
        (''location'', Str ''Argentina''), (''people_vaccinated'', Num 20),
        (''people_fully_vaccinated'', Num 5), (''people_fully_vaccinated_per_hundred'', Num 11)]]\<rparr>"

subsection \<open>Stores\<close>

text \<open>\<open>kept h h'\<close>: every table of \<open>h\<close> is still in \<open>h'\<close>, unchanged.\<close>

definition kept :: "heap \<Rightarrow> heap \<Rightarrow> bool" where
  "kept h h' = (nxt h \<le> nxt h' \<and> (\<forall>a<nxt h. objs h' a = objs h a))"

text \<open>A store that holds two of the example tables.\<close>

definition ex_heap :: heap where
  "ex_heap = \<lparr>objs = (\<lambda>a. if a = 0 then Some ex_continents else if a = 1 then Some ex_series else None),
     nxt = 2\<rparr>"

section \<open>Basic facts\<close>

lemma bind_res_simps [simp]:
  "bind_res (Inl e) f = Inl e" "bind_res (Inr x) f = f x"
  by (simp_all add: bind_res_def)

lemma bind_res_Inr_iff:
  "bind_res m f = Inr y \<longleftrightarrow> (\<exists>x. m = Inr x \<and> f x = Inr y)"
  by (cases m) simp_all











lemma add_partly_columns:
  "add_partly w = Inr w' \<Longrightarrow> set (columns w') = insert ''people_partly_vaccinated'' (set (columns w))"
  by (auto simp: add_partly_def getitem_def setitem_def bind_res_Inr_iff split: if_splits)

lemma sort_values_desc_Inr:
  "sort_values_desc srt w c = Inr w' \<Longrightarrow> columns w' = columns w \<and> rows w' = srt c (rows w) \<and> c \<in> set (columns w)"
  by (auto simp: sort_values_desc_def split: if_splits)

lemma select_where_Inr:
  "select_where w c p = Inr w' \<Longrightarrow>
     columns w' = columns w \<and> rows w' = filter (\<lambda>r. p (r c)) (rows w) \<and> c \<in> set (columns w)"
  by (auto simp: select_where_def split: if_splits)


lemma clean_data_tail:
  "clean_data srt fs dataset keepcols =
     bind_res (read_csv fs dataset) (\<lambda>df.
     bind_res (groupby_max df ''iso_code'' keepcols) (snapshot_tail srt))"
  by (simp add: clean_data_def snapshot_tail_def [abs_def])

lemma vpc_world_vax_tail:
  "vpc_world_vax srt data = bind_res (groupby_max data ''iso_code'' vpc_cols) (snapshot_tail srt)"
  by (simp add: vpc_world_vax_def snapshot_tail_def [abs_def])

lemma snapshot_cases:
  assumes "clean_data srt fs dataset keepcols = Inr snap \<or> vpc_world_vax srt data = Inr snap"
  obtains w where "snapshot_tail srt w = Inr snap"
  using assms by (auto simp: clean_data_tail vpc_world_vax_tail bind_res_Inr_iff)

lemma snapshot_tail_Inr:
  assumes "snapshot_tail srt w = Inr snap"
  shows "\<exists>w1. add_partly w = Inr w1 \<and>
    homogeneous (map (\<lambda>r. r ''people_vaccinated'') (rows w1)) \<and>
    rows snap = filter (\<lambda>r. \<not> isna (r ''continent'')) (srt ''people_vaccinated'' (rows w1)) \<and>
    columns snap = columns w1 \<and>
    ''continent'' \<in> set (columns w1) \<and> ''people_vaccinated'' \<in> set (columns w1)"
proof -
  from assms obtain w1 w2 where a: "add_partly w = Inr w1"
    and s: "sort_values_desc srt w1 ''people_vaccinated'' = Inr w2"
    and f: "select_where w2 ''continent'' (\<lambda>c. isna c = False) = Inr snap"
    by (auto simp: snapshot_tail_def reset_index_drop_def bind_res_Inr_iff)
  from s have h: "homogeneous (map (\<lambda>r. r ''people_vaccinated'') (rows w1))"
    by (auto simp: sort_values_desc_def split: if_splits)
  from sort_values_desc_Inr [OF s] select_where_Inr [OF f] a h show ?thesis
    by simp
qed

lemma groupby_max_columns: "groupby_max df key cols = Inr w \<Longrightarrow> columns w = cols"
  by (auto simp: groupby_max_def bind_res_Inr_iff split: if_splits)

lemma snapshot_tail_needs:
  assumes "snapshot_tail srt w = Inr snap"
  shows "''people_vaccinated'' \<in> set (columns w) \<and> ''people_fully_vaccinated'' \<in> set (columns w)
     \<and> ''continent'' \<in> set (columns w)"
proof -
  from snapshot_tail_Inr [OF assms] obtain w1 where a: "add_partly w = Inr w1" and c: "''continent'' \<in> set (columns w1)"
    by auto
  from a have "''people_vaccinated'' \<in> set (columns w)" "''people_fully_vaccinated'' \<in> set (columns w)"
    by (auto simp: add_partly_def getitem_def bind_res_Inr_iff split: if_splits)
  moreover from c add_partly_columns [OF a] have "''continent'' \<in> set (columns w)" by simp
  ultimately show ?thesis by simp
qed

lemma those_res_Inl: "those_res ms = Inl e \<Longrightarrow> Inl e \<in> set ms"
proof (induction ms)
  case Nil
  then show ?case by simp
next
  case (Cons m ms)
  then show ?case
    by (cases m; cases "those_res ms") auto
qed

lemma bind_res_Inl_iff:
  "bind_res m f = Inl e \<longleftrightarrow> m = Inl e \<or> (\<exists>x. m = Inr x \<and> f x = Inl e)"
  by (cases m) simp_all

lemma group_max_Inl: "group_max cs = Inl e \<Longrightarrow> e = TypeError"
  by (auto simp: group_max_def split: list.splits if_splits)

lemma agg_row_Inl: "agg_row cs g = Inl e \<Longrightarrow> e = TypeError"
  by (induction cs arbitrary: e) (auto simp: bind_res_Inl_iff dest: group_max_Inl)

lemma those_res_all_Inr: "those_res (map (\<lambda>k. Inr (f k)) ks) = Inr (map f ks)"
  by (induction ks) auto

lemma groupby_max_Inl: "groupby_max df key cols = Inl e \<Longrightarrow> e = KeyError \<or> e = TypeError"
  by (auto simp: groupby_max_def bind_res_Inl_iff split: if_splits dest!: those_res_Inl agg_row_Inl [OF sym])

lemma sub_cell_Inl: "sub_cell a b = Inl e \<Longrightarrow> e = TypeError"
  by (cases a; cases b) auto

lemma sub_series_Inl: "sub_series xs ys = Inl e \<Longrightarrow> e = TypeError"
  by (auto simp: sub_series_def dest!: those_res_Inl sub_cell_Inl [OF sym])

lemma snapshot_tail_Inl: "snapshot_tail srt w = Inl e \<Longrightarrow> e = KeyError \<or> e = TypeError"
  by (auto simp: snapshot_tail_def add_partly_def getitem_def sort_values_desc_def select_where_def
      bind_res_Inl_iff split: if_splits dest: sub_series_Inl)

lemma clean_data_Inl:
  "clean_data srt fs dataset keepcols = Inl e \<Longrightarrow> fs dataset \<noteq> None \<Longrightarrow> e = KeyError \<or> e = TypeError"
  by (auto simp: clean_data_tail read_csv_def bind_res_Inl_iff
      dest: groupby_max_Inl snapshot_tail_Inl)

lemma clean_data_needs:
  assumes "clean_data srt fs dataset keepcols = Inr snap"
  shows "''people_vaccinated'' \<in> set keepcols \<and> ''people_fully_vaccinated'' \<in> set keepcols
     \<and> ''continent'' \<in> set keepcols"
proof -
  from assms obtain df w where g: "groupby_max df ''iso_code'' keepcols = Inr w"
    and t: "snapshot_tail srt w = Inr snap"
    by (auto simp: clean_data_tail bind_res_Inr_iff)
  from snapshot_tail_needs [OF t] groupby_max_columns [OF g] show ?thesis by simp
qed





lemmas eval_defs = clean_data_def read_csv_def fs_of_def rf_path_def vpc_cols_def
  groupby_max_def group_keys_def group_max_def homogeneous_def isna_def is_num_def is_str_def
  add_partly_def reset_index_drop_def getitem_def setitem_def sub_series_def
  sort_values_desc_def insertion_sorter_def select_where_def row_of_def

lemma ex_source_snapshot:
  "\<exists>s. clean_data insertion_sorter (fs_of ex_source) rf_path vpc_cols = Inr s \<and>
     map (\<lambda>r. (r ''iso_code'', r ''continent'', r ''people_vaccinated'',
                r ''people_fully_vaccinated'', r ''people_partly_vaccinated'')) (rows s)
       = [(Str ''A'', Str ''X'', Num 100, Num 40, Num 60)]"
  by (simp add: eval_defs ex_source_def)


section \<open>The snapshot\<close>








text \<open>
  C5. No row of the snapshot has a missing continent. On the source of two regions, A with
  continent X and B without, the snapshot is the single row of A.
\<close>

theorem snapshot_continent_present:
  assumes "clean_data srt fs dataset keepcols = Inr snap \<or> vpc_world_vax srt data = Inr snap"
    and "r \<in> set (rows snap)"
  shows "\<not> isna (r ''continent'')"
proof -
  from assms(1) obtain w where "snapshot_tail srt w = Inr snap"
    by (rule snapshot_cases)
  from snapshot_tail_Inr [OF this] obtain w1 :: frame where
    "rows snap = filter (\<lambda>r. \<not> isna (r ''continent'')) (srt ''people_vaccinated'' (rows w1))"
    by auto
  with assms(2) show ?thesis by simp
qed


theorem snapshot_continent_present_witness:
  "case clean_data insertion_sorter (fs_of ex_source) rf_path vpc_cols of
     Inl e \<Rightarrow> False
   | Inr s \<Rightarrow>
       map (\<lambda>r. (r ''iso_code'', r ''continent'', r ''people_partly_vaccinated'')) (rows s)
         = [(Str ''A'', Str ''X'', Num 60)] \<and>
       list_all (\<lambda>r. \<not> isna (r ''continent'')) (rows s)"
proof -
  from ex_source_snapshot obtain s where
    s: "clean_data insertion_sorter (fs_of ex_source) rf_path vpc_cols = Inr s"
    and m: "map (\<lambda>r. (r ''iso_code'', r ''continent'', r ''people_partly_vaccinated'')) (rows s)
         = [(Str ''A'', Str ''X'', Num 60)]"
    by auto
  have "\<not> isna (r ''continent'')" if "r \<in> set (rows s)" for r
    using snapshot_continent_present [OF disjI1 [OF s] that] .
  with s m show ?thesis by (simp add: list_all_iff)
qed

text \<open>
  C10. A call of \<^verbatim>\<open>clean_data\<close> whose \<^verbatim>\<open>keepcols\<close> lacks \<^verbatim>\<open>people_vaccinated\<close>,
  \<^verbatim>\<open>people_fully_vaccinated\<close> or \<^verbatim>\<open>continent\<close> raises an error and returns no snapshot. When
  the file can be read the error is \<^verbatim>\<open>KeyError\<close>, unless a \<^verbatim>\<open>TypeError\<close> of the aggregation,
  the subtraction or the sort comes first; with the default \<^verbatim>\<open>keepcols=[]\<close> it is \<^verbatim>\<open>KeyError\<close>.
\<close>

theorem clean_data_missing_column:
  assumes "''people_vaccinated'' \<notin> set keepcols \<or> ''people_fully_vaccinated'' \<notin> set keepcols
     \<or> ''continent'' \<notin> set keepcols"
  shows "(\<exists>e. clean_data srt fs dataset keepcols = Inl e) \<and>
    (fs dataset \<noteq> None \<longrightarrow>
       clean_data srt fs dataset keepcols = Inl KeyError \<or>
       clean_data srt fs dataset keepcols = Inl TypeError) \<and>
    (fs dataset \<noteq> None \<longrightarrow> clean_data srt fs dataset [] = Inl KeyError)"
proof -
  obtain e where e: "clean_data srt fs dataset keepcols = Inl e"
    using assms clean_data_needs [of srt fs dataset keepcols]
    by (cases "clean_data srt fs dataset keepcols") auto
  have d: "clean_data srt fs dataset [] = Inl KeyError" if "fs dataset \<noteq> None"
  proof -
    from that obtain df where df: "fs dataset = Some df" by auto
    show ?thesis
      by (simp add: clean_data_def read_csv_def df groupby_max_def those_res_all_Inr
          reset_index_drop_def add_partly_def getitem_def)
  qed
  from e clean_data_Inl [OF e] d show ?thesis by auto
qed

theorem clean_data_missing_column_witness:
  "clean_data insertion_sorter (fs_of ex_source) rf_path [] = Inl KeyError \<and>
   (\<exists>e. clean_data insertion_sorter (fs_of ex_source) rf_path
      [''iso_code'', ''people_vaccinated'', ''people_fully_vaccinated''] = Inl e)"
proof -
  have f: "fs_of ex_source rf_path \<noteq> None" by (simp add: fs_of_def)
  have m: "''people_vaccinated'' \<notin> set ([] :: string list) \<or> ''people_fully_vaccinated'' \<notin> set ([] :: string list)
     \<or> ''continent'' \<notin> set ([] :: string list)" by simp
  have m2: "''people_vaccinated'' \<notin> set [''iso_code'', ''people_vaccinated'', ''people_fully_vaccinated'']
    \<or> ''people_fully_vaccinated'' \<notin> set [''iso_code'', ''people_vaccinated'', ''people_fully_vaccinated'']
     \<or> ''continent'' \<notin> set [''iso_code'', ''people_vaccinated'', ''people_fully_vaccinated'']" by simp
  from clean_data_missing_column [OF m, of insertion_sorter "fs_of ex_source" rf_path] f
    clean_data_missing_column [OF m2, of insertion_sorter "fs_of ex_source" rf_path]
  show ?thesis by blast
qed

section \<open>Series\<close>

lemma restrict_row_in [simp]: "c \<in> set cs \<Longrightarrow> restrict_row cs r c = r c"
  by (simp add: restrict_row_def)

lemma select_where_rows:
  "select_where df c p = Inr df' \<longleftrightarrow>
     c \<in> set (columns df) \<and> df' = \<lparr>columns = columns df, rows = filter (\<lambda>r. p (r c)) (rows df)\<rparr>"
  by (auto simp: select_where_def)

lemma getitems_Inr_iff:
  "getitems df cs = Inr df' \<longleftrightarrow>
     set cs \<subseteq> set (columns df) \<and> df' = \<lparr>columns = cs, rows = map (restrict_row cs) (rows df)\<rparr>"
  by (auto simp: getitems_def)

lemma getitem_Inr_iff:
  "getitem df c = Inr vs \<longleftrightarrow> c \<in> set (columns df) \<and> vs = map (\<lambda>r. r c) (rows df)"
  by (auto simp: getitem_def)

lemma iloc0_Inr_iff: "iloc0 cs = Inr c \<longleftrightarrow> (\<exists>cs'. cs = c # cs')"
  by (cases cs) (auto simp: iloc0_def)

lemma country_trace_Inr:
  assumes "country_trace dataset country = Inr t"
  shows "sc_y t = map (\<lambda>r. r ''new_vaccinations_per_hundred'')
           (filter (\<lambda>r. r ''location'' = Str country \<and> \<not> isna (r ''new_vaccinations_per_hundred''))
              (rows dataset)) \<and>
         sc_x t = map (\<lambda>r. r ''date'')
           (filter (\<lambda>r. r ''location'' = Str country \<and> \<not> isna (r ''new_vaccinations_per_hundred''))
              (rows dataset)) \<and>
         sc_y t \<noteq> []"
proof -
  let ?cs = "[''iso_code'', ''date'', ''new_vaccinations_per_hundred'']"
  let ?sel = "filter (\<lambda>r. r ''location'' = Str country) (rows dataset)"
  let ?cv = "filter (\<lambda>r. \<not> isna (r ''new_vaccinations_per_hundred'')) (map (restrict_row ?cs) ?sel)"
  from assms obtain name where
    x: "sc_x t = map (\<lambda>r. r ''date'') ?cv"
    and y: "sc_y t = map (\<lambda>r. r ''new_vaccinations_per_hundred'') ?cv"
    and n: "iloc0 (map (\<lambda>r. r ''iso_code'') ?cv) = Inr name"
    unfolding country_trace_def scatter_of_def
    by (auto simp: bind_res_Inr_iff select_where_rows getitems_Inr_iff getitem_Inr_iff eq_str_def)
  have cv: "?cv = map (restrict_row ?cs)
      (filter (\<lambda>r. r ''location'' = Str country \<and> \<not> isna (r ''new_vaccinations_per_hundred''))
              (rows dataset))"
    by (simp add: filter_map o_def conj_commute)
  from n have "?cv \<noteq> []" by (auto simp: iloc0_Inr_iff)
  with x y show ?thesis
    unfolding cv by (simp add: o_def)
qed

lemma vts_loop_Inr:
  "vts_loop dataset cs g = Inr graph \<Longrightarrow>
     \<exists>ts. graph = g @ ts \<and> length ts = length cs \<and>
       (\<forall>i<length cs. country_trace dataset (cs ! i) = Inr (ts ! i))"
proof (induction cs arbitrary: g)
  case Nil
  then show ?case by simp
next
  case (Cons c cs)
  from Cons.prems obtain t where t: "country_trace dataset c = Inr t"
    and l: "vts_loop dataset cs (g @ [t]) = Inr graph"
    by (auto simp: bind_res_Inr_iff)
  from Cons.IH [OF l] obtain ts where ts: "graph = (g @ [t]) @ ts" "length ts = length cs"
    "\<forall>i<length cs. country_trace dataset (cs ! i) = Inr (ts ! i)"
    by auto
  show ?case
  proof (intro exI conjI allI impI)
    show "graph = g @ (t # ts)" using ts by simp
    show "length (t # ts) = length (c # cs)" using ts by simp
    show "country_trace dataset ((c # cs) ! i) = Inr ((t # ts) ! i)" if "i < length (c # cs)" for i
      using that t ts by (cases i) auto
  qed
qed

lemma vts_loop_Inl:
  "vts_loop dataset cs g = Inl e \<Longrightarrow> \<exists>c\<in>set cs. country_trace dataset c = Inl e"
proof (induction cs arbitrary: g)
  case Nil
  then show ?case by simp
next
  case (Cons c cs)
  then show ?case
    by (cases "country_trace dataset c") auto
qed

lemma bra_series_Inr:
  assumes "bra_series owid = Inr b"
  shows "bar_y b = map (\<lambda>r. r ''new_vaccinations'')
           (filter (\<lambda>r. r ''iso_code'' = Str ''BRA'' \<and> \<not> isna (r ''new_vaccinations'')) (rows owid)) \<and>
         bar_x b = map (\<lambda>r. r ''date'')
           (filter (\<lambda>r. r ''iso_code'' = Str ''BRA'' \<and> \<not> isna (r ''new_vaccinations'')) (rows owid))"
proof -
  let ?cs = "[''date'', ''new_vaccinations'']"
  let ?sel = "filter (\<lambda>r. r ''iso_code'' = Str ''BRA'') (rows owid)"
  let ?bv = "filter (\<lambda>r. \<not> isna (r ''new_vaccinations'')) (map (restrict_row ?cs) ?sel)"
  from assms have
    x: "bar_x b = map (\<lambda>r. r ''date'') ?bv"
    and y: "bar_y b = map (\<lambda>r. r ''new_vaccinations'') ?bv"
    unfolding bra_series_def
    by (auto simp: bind_res_Inr_iff select_where_rows getitems_Inr_iff getitem_Inr_iff eq_str_def)
  have bv: "?bv = map (restrict_row ?cs)
      (filter (\<lambda>r. r ''iso_code'' = Str ''BRA'' \<and> \<not> isna (r ''new_vaccinations'')) (rows owid))"
    by (simp add: filter_map o_def conj_commute)
  from x y show ?thesis
    unfolding bv by (simp add: o_def)
qed

lemmas series_defs = vax_time_series_def country_trace_def select_where_def getitems_def
  scatter_of_def getitem_def iloc0_def eq_str_def isna_def row_of_def restrict_row_def
  layout_five_def

lemma ex_series_graph:
  "\<exists>g. vax_time_series [''Brazil'', ''India''] ex_series = Inr (g, layout_five) \<and>
     map sc_y g = [[Num (1/2), Num (7/10)], [Num (1/10)]] \<and>
     map sc_name g = [Str ''BRA'', Str ''IND'']"
  by (simp add: series_defs ex_series_def)

lemma country_trace_empty:
  assumes "set [''iso_code'', ''location'', ''date'', ''new_vaccinations_per_hundred''] \<subseteq> set (columns dataset)"
    and "\<forall>r\<in>set (rows dataset). r ''location'' = Str country \<longrightarrow> isna (r ''new_vaccinations_per_hundred'')"
  shows "country_trace dataset country = Inl IndexError"
proof -
  from assms(2) have "filter (\<lambda>r. r ''location'' = Str country \<and> \<not> isna (r ''new_vaccinations_per_hundred''))
              (rows dataset) = []"
    by (auto simp: filter_empty_conv)
  with assms(1) show ?thesis
  by (simp add: country_trace_def select_where_def getitems_def scatter_of_def getitem_def
      iloc0_def eq_str_def filter_map o_def conj_commute)
qed

lemma country_trace_Inl:
  assumes "set [''iso_code'', ''location'', ''date'', ''new_vaccinations_per_hundred''] \<subseteq> set (columns dataset)"
    and "country_trace dataset country = Inl e"
  shows "e = IndexError"
  using assms
  unfolding country_trace_def scatter_of_def
  by (auto simp: select_where_def getitems_def getitem_def iloc0_def bind_res_Inl_iff
      split: if_splits list.splits)

lemma ex_rate_bra:
  "\<exists>b. bra_series ex_rate = Inr b \<and> bar_y b = [Num 50, Num 50]"
  by (simp add: bra_series_def select_where_def getitems_def getitem_def eq_str_def isna_def
      restrict_row_def ex_rate_def row_of_def)

text \<open>
  C2. The claim: for a requested country that matches no row, \<^verbatim>\<open>vax_time_series\<close> returns an
  empty series and raises nothing. The code: when the table has the four columns the
  function reads and a requested country has no row with a present rate (in particular no
  row at all), \<^verbatim>\<open>country_vax.iso_code.iloc[0]\<close> is taken of an empty series and the whole call
  raises \<^verbatim>\<open>IndexError\<close>; no series is returned, for any of the requested countries.
\<close>

theorem vax_time_series_raises:
  assumes "set [''iso_code'', ''location'', ''date'', ''new_vaccinations_per_hundred'']
             \<subseteq> set (columns dataset)"
    and "country \<in> set countries"
    and "\<forall>r\<in>set (rows dataset). r ''location'' = Str country \<longrightarrow>
           isna (r ''new_vaccinations_per_hundred'')"
  shows "vax_time_series countries dataset = Inl IndexError"
proof (cases "vts_loop dataset countries []")
  case (Inl e)
  from vts_loop_Inl [OF Inl] obtain c where "country_trace dataset c = Inl e" by auto
  from country_trace_Inl [OF assms(1) this] Inl show ?thesis
    by (simp add: vax_time_series_def)
next
  case (Inr graph)
  from assms(2) obtain i where i: "i < length countries" "countries ! i = country"
    by (auto simp: in_set_conv_nth)
  from vts_loop_Inr [OF Inr] i have "\<exists>t. country_trace dataset country = Inr t"
    by auto
  with country_trace_empty [OF assms(1,3)] show ?thesis by simp
qed

theorem vax_time_series_raises_witness:
  "vax_time_series [''Brazil'', ''Atlantis''] ex_series = Inl IndexError \<and>
   (\<exists>g. vax_time_series [''Brazil''] ex_series = Inr (g, layout_five))"
proof -
  have c: "set [''iso_code'', ''location'', ''date'', ''new_vaccinations_per_hundred'']
             \<subseteq> set (columns ex_series)"
    by (simp add: ex_series_def)
  have m: "''Atlantis'' \<in> set [''Brazil'', ''Atlantis'']" by simp
  have a: "\<forall>r\<in>set (rows ex_series). r ''location'' = Str ''Atlantis'' \<longrightarrow>
           isna (r ''new_vaccinations_per_hundred'')"
    by (simp add: ex_series_def row_of_def)
  have "\<exists>g. vax_time_series [''Brazil''] ex_series = Inr (g, layout_five)"
    by (simp add: series_defs ex_series_def)
  with vax_time_series_raises [OF c m a] show ?thesis by simp
qed

lemma series_points_returned:
  "(vax_time_series countries dataset = Inr (graph, lay) \<longrightarrow>
      length graph = length countries \<and>
      (\<forall>i<length countries.
         list_all (\<lambda>c. \<not> isna c) (sc_y (graph ! i)) \<and>
         length (sc_y (graph ! i)) =
           length (filter (\<lambda>r. r ''location'' = Str (countries ! i) \<and>
                     \<not> isna (r ''new_vaccinations_per_hundred'')) (rows dataset)) \<and>
         length (sc_x (graph ! i)) = length (sc_y (graph ! i)))) \<and>
   (bra_series owid = Inr b \<longrightarrow>
      list_all (\<lambda>c. \<not> isna c) (bar_y b) \<and>
      length (bar_y b) =
        length (filter (\<lambda>r. r ''iso_code'' = Str ''BRA'' \<and> \<not> isna (r ''new_vaccinations''))
                  (rows owid)) \<and>
      length (bar_x b) = length (bar_y b))"
proof (intro conjI impI)
  assume "vax_time_series countries dataset = Inr (graph, lay)"
  then have "vts_loop dataset countries [] = Inr graph"
    by (auto simp: vax_time_series_def bind_res_Inr_iff)
  from vts_loop_Inr [OF this] have len: "length graph = length countries"
    and tr: "\<And>i. i < length countries \<Longrightarrow> country_trace dataset (countries ! i) = Inr (graph ! i)"
    by auto
  show "length graph = length countries" by (rule len)
  show "\<forall>i<length countries.
         list_all (\<lambda>c. \<not> isna c) (sc_y (graph ! i)) \<and>
         length (sc_y (graph ! i)) =
           length (filter (\<lambda>r. r ''location'' = Str (countries ! i) \<and>
                     \<not> isna (r ''new_vaccinations_per_hundred'')) (rows dataset)) \<and>
         length (sc_x (graph ! i)) = length (sc_y (graph ! i))"
  proof (intro allI impI)
    fix i assume "i < length countries"
    from country_trace_Inr [OF tr [OF this]]
    show "list_all (\<lambda>c. \<not> isna c) (sc_y (graph ! i)) \<and>
         length (sc_y (graph ! i)) =
           length (filter (\<lambda>r. r ''location'' = Str (countries ! i) \<and>
                     \<not> isna (r ''new_vaccinations_per_hundred'')) (rows dataset)) \<and>
         length (sc_x (graph ! i)) = length (sc_y (graph ! i))"
      by (simp add: list_all_iff)
  qed
next
  assume "bra_series owid = Inr b"
  from bra_series_Inr [OF this]
  show "list_all (\<lambda>c. \<not> isna c) (bar_y b)"
    "length (bar_y b) =
        length (filter (\<lambda>r. r ''iso_code'' = Str ''BRA'' \<and> \<not> isna (r ''new_vaccinations''))
                  (rows owid))"
    "length (bar_x b) = length (bar_y b)"
    by (simp_all add: list_all_iff)
qed

lemma country_trace_total:
  assumes "set [''iso_code'', ''location'', ''date'', ''new_vaccinations_per_hundred''] \<subseteq> set (columns dataset)"
    and "\<exists>r\<in>set (rows dataset). r ''location'' = Str country \<and> \<not> isna (r ''new_vaccinations_per_hundred'')"
  shows "\<exists>t. country_trace dataset country = Inr t"
proof -
  from assms(2) have "filter (\<lambda>r. r ''location'' = Str country \<and> \<not> isna (r ''new_vaccinations_per_hundred''))
              (rows dataset) \<noteq> []"
    by (auto simp: filter_empty_conv)
  then obtain x xs where "filter (\<lambda>r. r ''location'' = Str country \<and> \<not> isna (r ''new_vaccinations_per_hundred''))
              (rows dataset) = x # xs"
    by (auto simp: neq_Nil_conv)
  with assms(1) show ?thesis
    by (simp add: country_trace_def select_where_def getitems_def scatter_of_def getitem_def
      iloc0_def eq_str_def filter_map o_def conj_commute)
qed

lemma vts_loop_total:
  "\<forall>c\<in>set cs. \<exists>t. country_trace dataset c = Inr t \<Longrightarrow> \<exists>graph. vts_loop dataset cs g = Inr graph"
proof (induction cs arbitrary: g)
  case Nil
  then show ?case by simp
next
  case (Cons c cs)
  then obtain t where "country_trace dataset c = Inr t" by auto
  with Cons show ?case by simp
qed

lemma vax_time_series_total:
  assumes "set [''iso_code'', ''location'', ''date'', ''new_vaccinations_per_hundred''] \<subseteq> set (columns dataset)"
    and "\<forall>c\<in>set countries. \<exists>r\<in>set (rows dataset).
           r ''location'' = Str c \<and> \<not> isna (r ''new_vaccinations_per_hundred'')"
  shows "\<exists>graph. vax_time_series countries dataset = Inr (graph, layout_five)"
proof -
  from assms have "\<forall>c\<in>set countries. \<exists>t. country_trace dataset c = Inr t"
    using country_trace_total by blast
  from vts_loop_total [OF this, of "[]"] show ?thesis
    by (auto simp: vax_time_series_def)
qed

lemma bra_series_total:
  "set [''iso_code'', ''date'', ''new_vaccinations''] \<subseteq> set (columns owid) \<Longrightarrow>
     \<exists>b. bra_series owid = Inr b"
  by (simp add: bra_series_def select_where_def getitems_def getitem_def)

text \<open>
  C7. When \<^verbatim>\<open>vax_time_series\<close> returns, it returns one trace per requested country; every
  point of a trace has a present rate, and the trace has as many points as the table has
  rows of that country with a present rate. It does return when the table has the columns
  it reads and every requested country has a row with a present rate. The same holds of
  the series of Brazil built in \<^verbatim>\<open>return_figures\<close>, for the rows with code BRA and a
  present count; that series is built whenever its three columns exist.
\<close>

theorem series_points:
  "(vax_time_series countries dataset = Inr (graph, lay) \<longrightarrow>
      length graph = length countries \<and>
      (\<forall>i<length countries.
         list_all (\<lambda>c. \<not> isna c) (sc_y (graph ! i)) \<and>
         length (sc_y (graph ! i)) =
           length (filter (\<lambda>r. r ''location'' = Str (countries ! i) \<and>
                     \<not> isna (r ''new_vaccinations_per_hundred'')) (rows dataset)) \<and>
         length (sc_x (graph ! i)) = length (sc_y (graph ! i)))) \<and>
   (set [''iso_code'', ''location'', ''date'', ''new_vaccinations_per_hundred'']
        \<subseteq> set (columns dataset) \<and>
    (\<forall>c\<in>set countries. \<exists>r\<in>set (rows dataset).
        r ''location'' = Str c \<and> \<not> isna (r ''new_vaccinations_per_hundred'')) \<longrightarrow>
      (\<exists>g. vax_time_series countries dataset = Inr (g, layout_five))) \<and>
   (bra_series owid = Inr b \<longrightarrow>
      list_all (\<lambda>c. \<not> isna c) (bar_y b) \<and>
      length (bar_y b) =
        length (filter (\<lambda>r. r ''iso_code'' = Str ''BRA'' \<and> \<not> isna (r ''new_vaccinations''))
                  (rows owid)) \<and>
      length (bar_x b) = length (bar_y b)) \<and>
   (set [''iso_code'', ''date'', ''new_vaccinations''] \<subseteq> set (columns owid) \<longrightarrow>
      (\<exists>b. bra_series owid = Inr b))"
proof (intro conjI)
  note r = series_points_returned [of countries dataset graph lay owid b]
  from r show "vax_time_series countries dataset = Inr (graph, lay) \<longrightarrow>
      length graph = length countries \<and>
      (\<forall>i<length countries.
         list_all (\<lambda>c. \<not> isna c) (sc_y (graph ! i)) \<and>
         length (sc_y (graph ! i)) =
           length (filter (\<lambda>r. r ''location'' = Str (countries ! i) \<and>
                     \<not> isna (r ''new_vaccinations_per_hundred'')) (rows dataset)) \<and>
         length (sc_x (graph ! i)) = length (sc_y (graph ! i)))"
    by (rule conjunct1)
  from r show "bra_series owid = Inr b \<longrightarrow>
      list_all (\<lambda>c. \<not> isna c) (bar_y b) \<and>
      length (bar_y b) =
        length (filter (\<lambda>r. r ''iso_code'' = Str ''BRA'' \<and> \<not> isna (r ''new_vaccinations''))
                  (rows owid)) \<and>
      length (bar_x b) = length (bar_y b)"
    by (rule conjunct2)
  show "set [''iso_code'', ''location'', ''date'', ''new_vaccinations_per_hundred'']
        \<subseteq> set (columns dataset) \<and>
    (\<forall>c\<in>set countries. \<exists>r\<in>set (rows dataset).
        r ''location'' = Str c \<and> \<not> isna (r ''new_vaccinations_per_hundred'')) \<longrightarrow>
      (\<exists>g. vax_time_series countries dataset = Inr (g, layout_five))"
    using vax_time_series_total [of dataset countries] by blast
  show "set [''iso_code'', ''date'', ''new_vaccinations''] \<subseteq> set (columns owid) \<longrightarrow>
      (\<exists>b. bra_series owid = Inr b)"
    using bra_series_total [of owid] by blast
qed

theorem series_points_witness:
  "(case vax_time_series [''Brazil'', ''India''] ex_series of
      Inl e \<Rightarrow> False
    | Inr (g, l) \<Rightarrow>
        map sc_y g = [[Num (1/2), Num (7/10)], [Num (1/10)]] \<and>
        list_all (\<lambda>c. \<not> isna c) (sc_y (g ! 0)) \<and>
        length (sc_y (g ! 0)) =
          length (filter (\<lambda>r. r ''location'' = Str ''Brazil'' \<and>
                     \<not> isna (r ''new_vaccinations_per_hundred'')) (rows ex_series))) \<and>
   (case bra_series ex_rate of
      Inl e \<Rightarrow> False
    | Inr b \<Rightarrow> bar_y b = [Num 50, Num 50] \<and> list_all (\<lambda>c. \<not> isna c) (bar_y b))"
proof -
  from ex_series_graph obtain g where
    g: "vax_time_series [''Brazil'', ''India''] ex_series = Inr (g, layout_five)"
    and y: "map sc_y g = [[Num (1/2), Num (7/10)], [Num (1/10)]]"
    by auto
  from ex_rate_bra obtain b where b: "bra_series ex_rate = Inr b" "bar_y b = [Num 50, Num 50]"
    by auto
  from series_points [of "[''Brazil'', ''India'']" ex_series g layout_five ex_rate b] g b
  have "list_all (\<lambda>c. \<not> isna c) (sc_y (g ! 0)) \<and>
        length (sc_y (g ! 0)) =
          length (filter (\<lambda>r. r ''location'' = Str ''Brazil'' \<and>
                     \<not> isna (r ''new_vaccinations_per_hundred'')) (rows ex_series))"
    and "list_all (\<lambda>c. \<not> isna c) (bar_y b)"
    by auto
  with g y b show ?thesis by simp
qed

section \<open>The derived rate\<close>



lemma those_res_Inr_iff:
  "those_res ms = Inr xs \<longleftrightarrow> ms = map Inr xs"
proof (induction ms arbitrary: xs)
  case Nil
  then show ?case by auto
next
  case (Cons m ms)
  then show ?case
    by (cases m) (auto simp: bind_res_Inr_iff)
qed










section \<open>The bar chart\<close>

text \<open>
  C6. \<^verbatim>\<open>head(10)\<close> of a snapshot has \<open>min 10 n\<close> rows of its \<open>n\<close>, and they are its first rows
  in their order; both bar traces are read off these rows.
\<close>

theorem top_ten_prefix:
  "length (rows (head_rows 10 s)) = min 10 (length (rows s)) \<and>
   prefix (rows (head_rows 10 s)) (rows s) \<and>
   rows (head_rows 10 s) = take 10 (rows s) \<and>
   top_traces s =
     (if ''location'' \<in> set (columns s) \<and> ''people_partly_vaccinated'' \<in> set (columns s) \<and>
         ''people_fully_vaccinated'' \<in> set (columns s)
      then Inr [\<lparr>bar_x = map (\<lambda>r. r ''location'') (take 10 (rows s)),
                 bar_y = map (\<lambda>r. r ''people_partly_vaccinated'') (take 10 (rows s)),
                 bar_name = Some ''partly''\<rparr>,
                \<lparr>bar_x = map (\<lambda>r. r ''location'') (take 10 (rows s)),
                 bar_y = map (\<lambda>r. r ''people_fully_vaccinated'') (take 10 (rows s)),
                 bar_name = Some ''fully''\<rparr>]
      else Inl KeyError)"
  by (simp add: head_rows_def top_traces_def getitem_def take_is_prefix min_def)

section \<open>The continent filter\<close>





section \<open>The caller's table\<close>

lemma kept_refl: "kept h h"
  by (simp add: kept_def)

lemma kept_trans: "kept h h' \<Longrightarrow> kept h' h'' \<Longrightarrow> kept h h''"
  by (auto simp: kept_def)

lemma kept_data:
  "kept h h' \<Longrightarrow> objs h data = Some df \<Longrightarrow> data < nxt h \<Longrightarrow>
     objs h' data = Some df \<and> data < nxt h'"
  by (auto simp: kept_def)

lemma vpc_heap:
  assumes "objs h data = Some df" and "data < nxt h"
  shows "fst (vax_per_continent_heap srt data continent h) = vax_per_continent srt df continent \<and>
    kept h (snd (vax_per_continent_heap srt data continent h))"
  using assms
  unfolding vax_per_continent_heap_def vax_per_continent_def vpc_cont_vax_def vpc_world_vax_def
    add_partly_def
  by (auto simp: h_bind_def h_deref_def h_new_def h_pure_def h_setitem_def kept_def
      reset_index_drop_def bind_res_def split: sum.splits)

lemma country_trace_heap:
  assumes "objs h data = Some df" and "data < nxt h"
  shows "fst (country_trace_heap data country h) = country_trace df country \<and>
    kept h (snd (country_trace_heap data country h))"
  using assms
  unfolding country_trace_heap_def country_trace_def
  by (auto simp: h_bind_def h_deref_def h_new_def h_pure_def kept_def bind_res_def
      split: sum.splits)

lemma vts_loop_heap:
  assumes "objs h data = Some df" and "data < nxt h"
  shows "fst (vts_loop_heap data cs g h) = vts_loop df cs g \<and>
    kept h (snd (vts_loop_heap data cs g h))"
  using assms
proof (induction cs arbitrary: g h)
  case Nil
  then show ?case by (simp add: h_pure_def kept_refl)
next
  case (Cons c cs)
  let ?r = "country_trace_heap data c h"
  from country_trace_heap [OF Cons.prems, of c]
  have f: "fst ?r = country_trace df c" and k: "kept h (snd ?r)" by auto
  show ?case
  proof (cases "country_trace df c")
    case (Inl e)
    with f k show ?thesis
      by (cases ?r) (simp add: h_bind_def)
  next
    case (Inr t)
    from kept_data [OF k Cons.prems]
    have "objs (snd ?r) data = Some df" "data < nxt (snd ?r)" by auto
    from Cons.IH [OF this, of "g @ [t]"] k Inr f show ?thesis
      by (cases ?r) (auto simp: h_bind_def intro: kept_trans)
  qed
qed

lemma vts_heap:
  assumes "objs h data = Some df" and "data < nxt h"
  shows "fst (vax_time_series_heap cs data h) = vax_time_series cs df \<and>
    kept h (snd (vax_time_series_heap cs data h))"
proof -
  let ?r = "vts_loop_heap data cs [] h"
  from vts_loop_heap [OF assms, of cs "[]"]
  have "fst ?r = vts_loop df cs []" "kept h (snd ?r)" by auto
  then show ?thesis
    by (cases ?r; cases "vts_loop df cs []")
       (auto simp: vax_time_series_heap_def vax_time_series_def h_bind_def h_pure_def)
qed

text \<open>
  C9. When \<^verbatim>\<open>vax_per_continent\<close> or \<^verbatim>\<open>vax_time_series\<close> is called on a table of the store,
  that table and every other table the store held before the call are unchanged after
  it, and the call returns what the function returns on that table.
\<close>

theorem inputs_not_mutated:
  assumes "objs h data = Some df" and "data < nxt h"
  shows "objs (snd (vax_per_continent_heap srt data continent h)) data = Some df \<and>
    (\<forall>a<nxt h. objs (snd (vax_per_continent_heap srt data continent h)) a = objs h a) \<and>
    fst (vax_per_continent_heap srt data continent h) = vax_per_continent srt df continent \<and>
    objs (snd (vax_time_series_heap countries data h)) data = Some df \<and>
    (\<forall>a<nxt h. objs (snd (vax_time_series_heap countries data h)) a = objs h a) \<and>
    fst (vax_time_series_heap countries data h) = vax_time_series countries df"
  using vpc_heap [OF assms, of srt continent] vts_heap [OF assms, of countries] assms
  by (simp add: kept_def)

theorem inputs_not_mutated_witness:
  "objs (snd (vax_per_continent_heap insertion_sorter 0 ''South America'' ex_heap)) 0
     = Some ex_continents \<and>
   objs (snd (vax_per_continent_heap insertion_sorter 0 ''South America'' ex_heap)) 1
     = Some ex_series \<and>
   nxt (snd (vax_per_continent_heap insertion_sorter 0 ''South America'' ex_heap)) = 7 \<and>
   objs (snd (vax_time_series_heap [''Brazil'', ''India''] 1 ex_heap)) 1 = Some ex_series \<and>
   nxt (snd (vax_time_series_heap [''Brazil'', ''India''] 1 ex_heap)) = 8"
proof -
  have a: "objs ex_heap 0 = Some ex_continents" "0 < nxt ex_heap"
    and b: "objs ex_heap 1 = Some ex_series" "1 < nxt ex_heap"
    by (simp_all add: ex_heap_def)
  have n1: "nxt (snd (vax_per_continent_heap insertion_sorter 0 ''South America'' ex_heap)) = 7"
    by (simp add: vax_per_continent_heap_def h_bind_def h_deref_def h_new_def h_pure_def
        h_setitem_def ex_heap_def ex_continents_def eval_defs eq_str_def map_of_cont_def)
  have n2: "nxt (snd (vax_time_series_heap [''Brazil'', ''India''] 1 ex_heap)) = 8"
    by (simp add: vax_time_series_heap_def country_trace_heap_def h_bind_def h_deref_def
        h_new_def h_pure_def ex_heap_def ex_series_def series_defs)
  from inputs_not_mutated [OF a, of insertion_sorter "''South America''"]
    inputs_not_mutated [OF b, of _ _ "[''Brazil'', ''India'']"] a b n1 n2
  show ?thesis by simp
qed

end
